theory Spec2Isabelle
  imports Complex_Main
begin

section \<open>JavaScript numbers and \<open>parseFloat\<close>\<close>

text \<open>
  The wallet service (\<^verbatim>\<open>src/services/wallet.service.ts\<close>) keeps balances as JavaScript
  numbers and parses the request's amount with \<^verbatim>\<open>parseFloat\<close>. A number is modelled as
  \<open>NaN\<close>, an infinity, or a finite value; a finite value is the exact rational it denotes
  (the rounding of IEEE-754 arithmetic is not modelled, only the range: a literal beyond
  the largest double is \<open>Infinity\<close>, one below half the smallest subnormal is \<open>0\<close>).
\<close>

datatype jsnum = NaN | NInf | Fin rat | PInf

fun js_neg :: "jsnum \<Rightarrow> jsnum" where
  "js_neg NaN = NaN"
| "js_neg NInf = PInf"
| "js_neg (Fin x) = Fin (- x)"
| "js_neg PInf = NInf"

fun js_add :: "jsnum \<Rightarrow> jsnum \<Rightarrow> jsnum" where
  "js_add (Fin x) (Fin y) = Fin (x + y)"
| "js_add NaN y = NaN"
| "js_add x NaN = NaN"
| "js_add PInf NInf = NaN"
| "js_add NInf PInf = NaN"
| "js_add PInf y = PInf"
| "js_add x PInf = PInf"
| "js_add NInf y = NInf"
| "js_add x NInf = NInf"

text \<open>The comparisons \<^verbatim>\<open><\<close> and \<^verbatim>\<open><=\<close>: false as soon as one side is \<open>NaN\<close>.\<close>

fun js_less :: "jsnum \<Rightarrow> jsnum \<Rightarrow> bool" where
  "js_less (Fin x) (Fin y) = (x < y)"
| "js_less NaN y = False"
| "js_less x NaN = False"
| "js_less x NInf = False"
| "js_less NInf y = True"
| "js_less PInf y = False"
| "js_less x PInf = True"

definition js_le :: "jsnum \<Rightarrow> jsnum \<Rightarrow> bool" where
  "js_le x y = (x \<noteq> NaN \<and> y \<noteq> NaN \<and> \<not> js_less y x)"

text \<open>
  \<^verbatim>\<open>parseFloat(string)\<close> (ECMAScript): skip leading white space, take the longest prefix
  that is a \<open>StrDecimalLiteral\<close> (a sign, then \<^verbatim>\<open>Infinity\<close> or digits with an optional
  fraction and exponent), and return its value; \<open>NaN\<close> when there is no such prefix.
  Whatever follows the prefix is ignored. Strings are sequences of 8-bit code units.
\<close>

definition StrWhiteSpaceChar :: "char \<Rightarrow> bool" where
  "StrWhiteSpaceChar c =
     (c \<in> {CHR 0x09, CHR 0x0A, CHR 0x0B, CHR 0x0C, CHR 0x0D, CHR '' '', CHR 0xA0})"

definition DecimalDigit :: "char \<Rightarrow> bool" where
  "DecimalDigit c = (c \<in> set ''0123456789'')"

definition digit_value :: "char \<Rightarrow> nat" where
  "digit_value c = of_char c - 48"

definition DecimalDigits_value :: "string \<Rightarrow> nat" where
  "DecimalDigits_value ds = foldl (\<lambda>n c. 10 * n + digit_value c) 0 ds"

text \<open>The exponent of the longest \<open>ExponentPart\<close> the string starts with, \<open>0\<close> when there
  is none (an \<^verbatim>\<open>e\<close> without digits after it is not part of the literal).\<close>

definition ExponentPart :: "string \<Rightarrow> int" where
  "ExponentPart s =
     (case s of
        [] \<Rightarrow> 0
      | c # t \<Rightarrow>
          if c = CHR ''e'' \<or> c = CHR ''E'' then
            (case t of
               [] \<Rightarrow> 0
             | d # u \<Rightarrow>
                 if d = CHR ''+'' then int (DecimalDigits_value (takeWhile DecimalDigit u))
                 else if d = CHR ''-'' then - int (DecimalDigits_value (takeWhile DecimalDigit u))
                 else int (DecimalDigits_value (takeWhile DecimalDigit t)))
          else 0)"

definition double_range :: "rat \<Rightarrow> jsnum" where
  "double_range m =
     (if 2 ^ 1024 - 2 ^ 970 \<le> m then PInf
      else if m \<le> 1 / 2 ^ 1075 then Fin 0
      else Fin m)"

definition StrUnsignedDecimalLiteral :: "string \<Rightarrow> jsnum" where
  "StrUnsignedDecimalLiteral s =
     (if take 8 s = ''Infinity'' then PInf
      else
        let ip = takeWhile DecimalDigit s;
            r1 = dropWhile DecimalDigit s;
            dot = (r1 \<noteq> [] \<and> hd r1 = CHR ''.'');
            fp = (if dot then takeWhile DecimalDigit (tl r1) else []);
            r2 = (if dot then dropWhile DecimalDigit (tl r1) else r1)
        in if ip = [] \<and> fp = [] then NaN
           else double_range
                  (of_nat (DecimalDigits_value (ip @ fp))
                     * 10 powi (ExponentPart r2 - int (length fp))))"

definition parseFloat :: "string \<Rightarrow> jsnum" where
  "parseFloat string =
     (let trimmedString = dropWhile StrWhiteSpaceChar string in
      case trimmedString of
        [] \<Rightarrow> NaN
      | c # rest \<Rightarrow>
          if c = CHR ''-'' then js_neg (StrUnsignedDecimalLiteral rest)
          else if c = CHR ''+'' then StrUnsignedDecimalLiteral rest
          else StrUnsignedDecimalLiteral trimmedString)"

text \<open>
  The specification's reading of a well-formed amount, for comparison with what
  \<open>parseFloat\<close> accepts: the whole string is digits with at most one decimal point, and
  holds at least one digit.
\<close>

definition decimal_string :: "string \<Rightarrow> bool" where
  "decimal_string s =
     (list_all (\<lambda>c. DecimalDigit c \<or> c = CHR ''.'') s
      \<and> list_ex DecimalDigit s
      \<and> length (filter (\<lambda>c. c = CHR ''.'') s) \<le> 1)"


section \<open>The two DynamoDB tables\<close>

text \<open>
  \<^verbatim>\<open>Users\<close> is keyed by \<^verbatim>\<open>userId\<close>, \<^verbatim>\<open>Transactions\<close> by \<^verbatim>\<open>idempotentKey\<close>. An item of
  \<^verbatim>\<open>Users\<close> may lack any attribute but its key: \<^verbatim>\<open>createUser\<close> writes all of them, an
  \<^verbatim>\<open>ADD\<close> on a missing item creates one without \<^verbatim>\<open>createdAt\<close>, and the code reads
  \<^verbatim>\<open>balance\<close> with a default. An item of \<^verbatim>\<open>Transactions\<close> is what \<^verbatim>\<open>transact\<close> puts.
\<close>

record user_item =
  balance :: "rat option"
  createdAt :: "string option"
  updatedAt :: "string option"

record txn_item =
  txn_transactionId :: string
  txn_userId :: string
  txn_amount :: rat
  txn_type :: string
  txn_newBalance :: rat
  txn_timestamp :: string

record db =
  users :: "string \<rightharpoonup> user_item"
  transactions :: "string \<rightharpoonup> txn_item"

definition empty_db :: db where
  "empty_db = \<lparr>users = Map.empty, transactions = Map.empty\<rparr>"

text \<open>Every \<^verbatim>\<open>docClient.send\<close> is recorded, in order, with the table's key it addresses.\<close>

datatype store_op =
    GetUser string
  | GetTransaction string
  | PutUser string
  | TransactWrite string string

text \<open>The \<^verbatim>\<open>Error\<close>s the service throws, one constructor per message.\<close>

datatype error =
    UserIdRequired
  | FieldsRequired
  | AmountNotPositive
  | InvalidType
  | UserNotFound string
  | InsufficientBalance
  | ConcurrentModification
  | SdkError

text \<open>
  The kinds of the specification. \<^verbatim>\<open>transactHandler\<close> maps the messages the same way:
  "required" and "must be" to 400, "not found" to 404, "Insufficient balance",
  "concurrent" and "retry" to 409, anything else to 500.
\<close>

fun is_InvalidInput :: "error \<Rightarrow> bool" where
  "is_InvalidInput UserIdRequired = True"
| "is_InvalidInput FieldsRequired = True"
| "is_InvalidInput AmountNotPositive = True"
| "is_InvalidInput InvalidType = True"
| "is_InvalidInput e = False"

record 'a outcome =
  result :: "error + 'a"
  store :: db
  ops :: "store_op list"

definition failure :: "error \<Rightarrow> db \<Rightarrow> store_op list \<Rightarrow> 'a outcome" where
  "failure e d tr = \<lparr>result = Inl e, store = d, ops = tr\<rparr>"

text \<open>\<^verbatim>\<open>v || d\<close> for an attribute that is a number or absent: \<open>d\<close> when \<open>v\<close> is absent or zero.\<close>

definition or_default :: "rat option \<Rightarrow> rat \<Rightarrow> rat" where
  "or_default v d = (case v of None \<Rightarrow> d | Some b \<Rightarrow> if b = 0 then d else b)"

text \<open>\<^verbatim>\<open>result.Item?.balance\<close>.\<close>

definition item_balance :: "user_item option \<Rightarrow> rat option" where
  "item_balance it = (case it of None \<Rightarrow> None | Some u \<Rightarrow> balance u)"

text \<open>
  \<^verbatim>\<open>TransactWriteCommand\<close> with the two items \<^verbatim>\<open>transact\<close> builds. The \<^verbatim>\<open>Put\<close> is guarded by
  \<^verbatim>\<open>attribute_not_exists(idempotentKey)\<close>; the \<^verbatim>\<open>Update\<close> is guarded, for a debit only, by
  \<^verbatim>\<open>balance >= :minBalance\<close>, which fails on a missing item or attribute. Both guards are
  checked on the same state and both writes happen, or none
  (\<open>None\<close> is \<^verbatim>\<open>TransactionCanceledException\<close>). \<^verbatim>\<open>ADD\<close> starts from \<open>0\<close> when the
  attribute is missing and creates the item when the item is.
\<close>

definition add_balance :: "user_item option \<Rightarrow> rat \<Rightarrow> string \<Rightarrow> user_item" where
  "add_balance it change ts =
     (case it of
        None \<Rightarrow> \<lparr>balance = Some change, createdAt = None, updatedAt = Some ts\<rparr>
      | Some u \<Rightarrow>
          u\<lparr>balance := Some (case balance u of None \<Rightarrow> change | Some b \<Rightarrow> b + change),
            updatedAt := Some ts\<rparr>)"

text \<open>The condition \<^verbatim>\<open>balance >= :minBalance\<close> on an item that may be missing.\<close>

definition balance_at_least :: "user_item option \<Rightarrow> rat \<Rightarrow> bool" where
  "balance_at_least it m = (case item_balance it of None \<Rightarrow> False | Some b \<Rightarrow> m \<le> b)"

definition TransactWriteCommand ::
    "db \<Rightarrow> string \<Rightarrow> txn_item \<Rightarrow> string \<Rightarrow> rat \<Rightarrow> string \<Rightarrow> rat option \<Rightarrow> db option" where
  "TransactWriteCommand d key item uid balanceChange ts minBalance =
     (let put_ok = (transactions d key = None);
          update_ok =
            (case minBalance of
               None \<Rightarrow> True
             | Some m \<Rightarrow> balance_at_least (users d uid) m)
      in if put_ok \<and> update_ok
         then Some (d\<lparr>transactions := (transactions d)(key \<mapsto> item),
                      users := (users d)(uid \<mapsto> add_balance (users d uid) balanceChange ts)\<rparr>)
         else None)"


section \<open>The service\<close>

record GetBalanceInput =
  in_userId :: string

record GetBalanceOutput =
  out_userId :: string
  out_balance :: rat

record TransactInput =
  idempotentKey :: string
  userId :: string
  amount :: string
  type :: string

record TransactOutput =
  success :: bool
  transactionId :: string
  newBalance :: rat
  message :: "string option"

text \<open>What \<^verbatim>\<open>Date.now()\<close>, \<^verbatim>\<open>Math.random()\<close> and \<^verbatim>\<open>new Date()\<close> give one call of
  \<^verbatim>\<open>transact\<close>: the transaction id it generates and its timestamp.\<close>

record gen =
  txnId :: string
  now :: string

text \<open>
  \<^verbatim>\<open>transact\<close> awaits the store several times, and other requests run in between. The
  function \<open>env p\<close> is what they do to the tables at the point \<open>p\<close> of this call:
  after its idempotency read, after its read of the user, after its
  \<^verbatim>\<open>TransactWriteCommand\<close> (committed or cancelled), and after the second idempotency
  read of the \<^verbatim>\<open>catch\<close> block. \<open>no_interference\<close> is a call that runs alone.
\<close>

datatype await_point =
    AfterIdempotencyCheck
  | AfterGetUser
  | AfterTransactWrite
  | AfterCheckAgain

type_synonym interference = "await_point \<Rightarrow> db \<Rightarrow> db"

definition no_interference :: interference where
  "no_interference = (\<lambda>p d. d)"

definition getCurrentBalance :: "GetBalanceInput \<Rightarrow> db \<Rightarrow> GetBalanceOutput outcome" where
  "getCurrentBalance input d =
     (let uid = in_userId input in
      if uid = [] then failure UserIdRequired d []
      else
        (case users d uid of
           None \<Rightarrow> failure (UserNotFound uid) d [GetUser uid]
         | Some item \<Rightarrow>
             \<lparr>result = Inr \<lparr>out_userId = uid, out_balance = or_default (balance item) 0\<rparr>,
              store = d, ops = [GetUser uid]\<rparr>))"

text \<open>
  Steps 5 to 8 of \<^verbatim>\<open>transact\<close> and its \<^verbatim>\<open>catch\<close> block: the atomic write, then either the
  read of the new balance or the reconciliation reads. \<open>d1\<close> is the state the user was
  read in, \<open>a\<close> the amount, \<open>change\<close> and \<open>projected\<close> the values of \<^verbatim>\<open>balanceChange\<close> and
  \<^verbatim>\<open>calculatedNewBalance\<close>.
\<close>

definition commit ::
    "interference \<Rightarrow> gen \<Rightarrow> string \<Rightarrow> string \<Rightarrow> string \<Rightarrow> rat \<Rightarrow> rat \<Rightarrow> rat \<Rightarrow> db
       \<Rightarrow> TransactOutput outcome" where
  "commit env g key uid ty a change projected d1 =
     (let d2 = env AfterGetUser d1;
          item = \<lparr>txn_transactionId = txnId g, txn_userId = uid,
                  txn_amount = a, txn_type = ty,
                  txn_newBalance = projected, txn_timestamp = now g\<rparr>;
          minBalance = (if ty = ''debit'' then Some a else None);
          tr = [GetTransaction key, GetUser uid, TransactWrite key uid]
      in
      (case TransactWriteCommand d2 key item uid change (now g) minBalance of
         Some d3 \<Rightarrow>
           let d4 = env AfterTransactWrite d3;
               actualNewBalance = or_default (item_balance (users d4 uid)) projected
           in \<lparr>result = Inr \<lparr>success = True, transactionId = txnId g,
                              newBalance = actualNewBalance, message = None\<rparr>,
               store = d4, ops = tr @ [GetUser uid]\<rparr>
       | None \<Rightarrow>
           let d3 = env AfterTransactWrite d2 in
           (case transactions d3 key of
              Some checkAgain \<Rightarrow>
                let d4 = env AfterCheckAgain d3;
                    currentActualBalance =
                      or_default (item_balance (users d4 uid)) (txn_newBalance checkAgain)
                in \<lparr>result = Inr \<lparr>success = True,
                       transactionId = txn_transactionId checkAgain,
                       newBalance = currentActualBalance,
                       message = Some
                         ''Transaction already processed (idempotent - concurrent request)''\<rparr>,
                    store = d4, ops = tr @ [GetTransaction key, GetUser uid]\<rparr>
            | None \<Rightarrow>
                let d4 = env AfterCheckAgain d3;
                    latestBalance = or_default (item_balance (users d4 uid)) 0;
                    wouldBeBalance = latestBalance + change
                in
                if wouldBeBalance < 0
                then failure InsufficientBalance d4 (tr @ [GetTransaction key, GetUser uid])
                else failure ConcurrentModification d4
                       (tr @ [GetTransaction key, GetUser uid]))))"

text \<open>
  \<^verbatim>\<open>transact\<close>: validation, step 1 (idempotency read), step 2 (read of the user), steps 3
  and 4 (the change and the optimistic check), then \<open>commit\<close>. An infinite amount passes
  the validation; the client refuses to marshal it (\<open>SdkError\<close>), before any write.
\<close>

definition transact :: "interference \<Rightarrow> gen \<Rightarrow> TransactInput \<Rightarrow> db \<Rightarrow> TransactOutput outcome" where
  "transact env g input d =
     (let key = idempotentKey input; uid = userId input; ty = type input in
      if key = [] \<or> uid = [] \<or> amount input = [] \<or> ty = [] then failure FieldsRequired d []
      else
        let numericAmount = parseFloat (amount input) in
        if numericAmount = NaN \<or> js_le numericAmount (Fin 0) then failure AmountNotPositive d []
        else if ty \<noteq> ''credit'' \<and> ty \<noteq> ''debit'' then failure InvalidType d []
        else
          (case transactions d key of
             Some existing \<Rightarrow>
               \<lparr>result = Inr \<lparr>success = True,
                               transactionId = txn_transactionId existing,
                               newBalance = txn_newBalance existing,
                               message = Some ''Transaction already processed (idempotent)''\<rparr>,
                store = d, ops = [GetTransaction key]\<rparr>
           | None \<Rightarrow>
               let d1 = env AfterIdempotencyCheck d in
               (case users d1 uid of
                  None \<Rightarrow> failure (UserNotFound uid) d1 [GetTransaction key, GetUser uid]
                | Some user \<Rightarrow>
                    let currentBalance = or_default (balance user) 0;
                        balanceChange =
                          (if ty = ''credit'' then numericAmount else js_neg numericAmount);
                        calculatedNewBalance = js_add (Fin currentBalance) balanceChange
                    in
                    if js_less calculatedNewBalance (Fin 0)
                    then failure InsufficientBalance d1 [GetTransaction key, GetUser uid]
                    else
                      (case (numericAmount, balanceChange, calculatedNewBalance) of
                         (Fin a, Fin change, Fin projected) \<Rightarrow>
                           commit env g key uid ty a change projected d1
                       | _ \<Rightarrow> failure SdkError d1 [GetTransaction key, GetUser uid]))))"

text \<open>\<^verbatim>\<open>createUser\<close> puts the item with no condition; the two \<^verbatim>\<open>new Date()\<close> it evaluates
  are its first argument here.\<close>

definition createUser :: "string \<times> string \<Rightarrow> string \<Rightarrow> rat \<Rightarrow> db \<Rightarrow> unit outcome" where
  "createUser clock uid initialBalance d =
     \<lparr>result = Inr (),
      store = d\<lparr>users := (users d)(uid \<mapsto>
                 \<lparr>balance = Some initialBalance,
                  createdAt = Some (fst clock),
                  updatedAt = Some (snd clock)\<rparr>)\<rparr>,
      ops = [PutUser uid]\<rparr>"




section \<open>Sequences of operations\<close>

text \<open>The three operations of the service; \<open>exec\<close> gives the tables after one of them,
  \<open>run\<close> after a sequence.\<close>

datatype request =
    CreateAccount "string \<times> string" string rat
  | ApplyTransaction interference gen TransactInput
  | GetBalance GetBalanceInput

fun exec :: "request \<Rightarrow> db \<Rightarrow> db" where
  "exec (CreateAccount clock uid initialBalance) d = store (createUser clock uid initialBalance d)"
| "exec (ApplyTransaction env g input) d = store (transact env g input d)"
| "exec (GetBalance input) d = store (getCurrentBalance input d)"

fun run :: "request list \<Rightarrow> db \<Rightarrow> db" where
  "run [] d = d"
| "run (r # rs) d = run rs (exec r d)"


section \<open>Vocabulary of the properties\<close>

text \<open>The input passes the three checks at the head of \<^verbatim>\<open>transact\<close>.\<close>

definition passes_validation :: "TransactInput \<Rightarrow> bool" where
  "passes_validation input =
     (idempotentKey input \<noteq> [] \<and> userId input \<noteq> [] \<and> amount input \<noteq> []
      \<and> type input \<noteq> []
      \<and> parseFloat (amount input) \<noteq> NaN \<and> \<not> js_le (parseFloat (amount input)) (Fin 0)
      \<and> (type input = ''credit'' \<or> type input = ''debit''))"

text \<open>The signed change of a finite amount: \<open>+a\<close> for a credit, \<open>-a\<close> for a debit.\<close>

definition balance_delta :: "string \<Rightarrow> rat \<Rightarrow> rat" where
  "balance_delta ty a = (if ty = ''credit'' then a else - a)"

text \<open>The number of atomic writes a call attempted.\<close>

fun is_TransactWrite :: "store_op \<Rightarrow> bool" where
  "is_TransactWrite (TransactWrite k u) = True"
| "is_TransactWrite x = False"

definition commit_attempts :: "store_op list \<Rightarrow> nat" where
  "commit_attempts tr = length (filter is_TransactWrite tr)"

text \<open>No balance of the table is negative.\<close>

definition nonneg_balances :: "db \<Rightarrow> bool" where
  "nonneg_balances d = (\<forall>uid u b. users d uid = Some u \<and> balance u = Some b \<longrightarrow> 0 \<le> b)"

text \<open>The requests of the non-negativity property: an account is created with a
  non-negative balance, and what other requests do during a transaction keeps the
  balances non-negative.\<close>

fun admissible :: "request \<Rightarrow> bool" where
  "admissible (CreateAccount clock uid initialBalance) = (0 \<le> initialBalance)"
| "admissible (ApplyTransaction env g input) =
     (\<forall>p d. nonneg_balances d \<longrightarrow> nonneg_balances (env p d))"
| "admissible (GetBalance input) = True"


section \<open>Example states and requests\<close>

definition clock0 :: "string \<times> string" where
  "clock0 = (''2025-01-01T00:00:00.000Z'', ''2025-01-01T00:00:00.001Z'')"

definition gen1 :: gen where
  "gen1 = \<lparr>txnId = ''txn_1735689601000_a1b2c3d4e'', now = ''2025-01-01T00:00:01.000Z''\<rparr>"

definition gen2 :: gen where
  "gen2 = \<lparr>txnId = ''txn_1735689602000_f5g6h7i8j'', now = ''2025-01-01T00:00:02.000Z''\<rparr>"

definition gen3 :: gen where
  "gen3 = \<lparr>txnId = ''txn_1735689603000_k9l0m1n2o'', now = ''2025-01-01T00:00:03.000Z''\<rparr>"

text \<open>One account, \<^verbatim>\<open>alice\<close>, created with balance 100.\<close>

definition alice_100 :: db where
  "alice_100 = store (createUser clock0 ''alice'' 100 empty_db)"

definition request_of :: "string \<Rightarrow> string \<Rightarrow> string \<Rightarrow> string \<Rightarrow> TransactInput" where
  "request_of key uid amt ty = \<lparr>idempotentKey = key, userId = uid, amount = amt, type = ty\<rparr>"


text \<open>An item of \<^verbatim>\<open>Users\<close> without the \<^verbatim>\<open>balance\<close> attribute.\<close>

definition carol_no_balance :: db where
  "carol_no_balance =
     \<lparr>users = [''carol'' \<mapsto> \<lparr>balance = None, createdAt = None, updatedAt = None\<rparr>],
      transactions = Map.empty\<rparr>"

text \<open>\<^verbatim>\<open>alice\<close> after a credit of 30 with key \<^verbatim>\<open>k1\<close> and a credit of 20 with key
  \<^verbatim>\<open>k2\<close>, and the record the first of them wrote.\<close>

definition after_k1_k2 :: db where
  "after_k1_k2 =
     run [ApplyTransaction no_interference gen1 (request_of ''k1'' ''alice'' ''30'' ''credit''),
          ApplyTransaction no_interference gen2 (request_of ''k2'' ''alice'' ''20'' ''credit'')]
       alice_100"

definition k1_record :: txn_item where
  "k1_record = \<lparr>txn_transactionId = txnId gen1, txn_userId = ''alice'',
                txn_amount = 30, txn_type = ''credit'',
                txn_newBalance = 130, txn_timestamp = now gen1\<rparr>"

text \<open>Other requests on \<^verbatim>\<open>alice\<close> while a call is in flight: a debit of 50 lands after the
  call has read the user and a credit of 100 after its second idempotency read.\<close>

definition debit_then_credit :: interference where
  "debit_then_credit p d =
     (if p = AfterGetUser
      then store (transact no_interference gen2 (request_of ''k2'' ''alice'' ''50'' ''debit'') d)
      else if p = AfterCheckAgain
      then store (transact no_interference gen3 (request_of ''k3'' ''alice'' ''100'' ''credit'') d)
      else d)"

text \<open>A debit of 110 on \<^verbatim>\<open>alice\<close> that lands right after the call's atomic write.\<close>

definition debit_after_commit :: interference where
  "debit_after_commit p d =
     (if p = AfterTransactWrite
      then store (transact no_interference gen2 (request_of ''k2'' ''alice'' ''110'' ''debit'') d)
      else d)"


section \<open>Evaluation of \<open>parseFloat\<close> and the paths of \<open>transact\<close>\<close>

lemmas parse_defs = parseFloat_def StrUnsignedDecimalLiteral_def double_range_def
  ExponentPart_def DecimalDigits_value_def digit_value_def DecimalDigit_def
  StrWhiteSpaceChar_def Let_def

lemma parseFloat_examples:
  "parseFloat ''10'' = Fin 10"
  "parseFloat ''20'' = Fin 20"
  "parseFloat ''30'' = Fin 30"
  "parseFloat ''50'' = Fin 50"
  "parseFloat ''60'' = Fin 60"
  "parseFloat ''100'' = Fin 100"
  "parseFloat ''110'' = Fin 110"
  "parseFloat ''-10'' = Fin (- 10)"
  "parseFloat ''10abc'' = Fin 10"
  "parseFloat ''abc'' = NaN"
  "parseFloat ''Infinity'' = PInf"
  by (simp_all add: parse_defs)

lemma request_of_sel [simp]:
  "idempotentKey (request_of key uid amt ty) = key"
  "userId (request_of key uid amt ty) = uid"
  "amount (request_of key uid amt ty) = amt"
  "type (request_of key uid amt ty) = ty"
  by (simp_all add: request_of_def)

lemmas eval_defs = transact_def commit_def TransactWriteCommand_def balance_at_least_def
  add_balance_def
  item_balance_def or_default_def failure_def no_interference_def js_le_def
  createUser_def empty_db_def getCurrentBalance_def alice_100_def request_of_def
  gen1_def gen2_def gen3_def clock0_def Let_def

lemma valid_examples:
  "passes_validation (request_of ''k1'' ''alice'' ''30'' ''credit'')"
  "passes_validation (request_of ''k2'' ''alice'' ''20'' ''credit'')"
  "passes_validation (request_of ''k2'' ''bob'' ''50'' ''debit'')"
  "passes_validation (request_of ''k1'' ''mallory'' ''110'' ''debit'')"
  "passes_validation (request_of ''k1'' ''carol'' ''10'' ''credit'')"
  "passes_validation (request_of ''k1'' ''alice'' ''60'' ''debit'')"
  "passes_validation (request_of ''k1'' ''alice'' ''10'' ''credit'')"
  by (simp_all add: passes_validation_def parseFloat_examples js_le_def)

lemma after_k1_k2_eq:
  "after_k1_k2 =
    \<lparr>users = [''alice'' \<mapsto> \<lparr>balance = Some 150, createdAt = Some (fst clock0),
                              updatedAt = Some (now gen2)\<rparr>],
     transactions = [''k1'' \<mapsto> k1_record,
                    ''k2'' \<mapsto> \<lparr>txn_transactionId = txnId gen2, txn_userId = ''alice'',
                                txn_amount = 20, txn_type = ''credit'',
                                txn_newBalance = 150, txn_timestamp = now gen2\<rparr>]\<rparr>"
  unfolding after_k1_k2_def
  by (simp add: eval_defs parseFloat_examples k1_record_def)

lemma valid_amount:
  "passes_validation input \<Longrightarrow> parseFloat (amount input) = Fin a \<Longrightarrow> 0 < a"
  by (simp add: passes_validation_def js_le_def)

lemma valid_type:
  "passes_validation input \<Longrightarrow> type input = ''credit'' \<or> type input = ''debit''"
  by (simp add: passes_validation_def)

lemma valid_cases:
  assumes "passes_validation input"
  obtains a where "parseFloat (amount input) = Fin a" "0 < a"
  | "parseFloat (amount input) = PInf"
  using assms unfolding passes_validation_def js_le_def
  by (cases "parseFloat (amount input)") auto

lemma transact_FieldsRequired:
  "idempotentKey input = [] \<or> userId input = [] \<or> amount input = [] \<or> type input = []
   \<Longrightarrow> transact env g input d = failure FieldsRequired d []"
  by (simp add: transact_def)

lemma transact_AmountNotPositive:
  "\<not> (idempotentKey input = [] \<or> userId input = [] \<or> amount input = [] \<or> type input = [])
   \<Longrightarrow> parseFloat (amount input) = NaN \<or> js_le (parseFloat (amount input)) (Fin 0)
   \<Longrightarrow> transact env g input d = failure AmountNotPositive d []"
  by (simp add: transact_def Let_def)

lemma transact_InvalidType:
  "\<not> (idempotentKey input = [] \<or> userId input = [] \<or> amount input = [] \<or> type input = [])
   \<Longrightarrow> \<not> (parseFloat (amount input) = NaN \<or> js_le (parseFloat (amount input)) (Fin 0))
   \<Longrightarrow> type input \<noteq> ''credit'' \<and> type input \<noteq> ''debit''
   \<Longrightarrow> transact env g input d = failure InvalidType d []"
  by (simp add: transact_def Let_def)

lemma transact_invalid:
  assumes "\<not> passes_validation input"
  shows "\<exists>e. is_InvalidInput e \<and> transact env g input d = failure e d []"
proof -
  let ?f = "idempotentKey input = [] \<or> userId input = [] \<or> amount input = []
            \<or> type input = []"
  let ?a = "parseFloat (amount input) = NaN \<or> js_le (parseFloat (amount input)) (Fin 0)"
  let ?t = "type input \<noteq> ''credit'' \<and> type input \<noteq> ''debit''"
  consider (fields) ?f | (amount) "\<not> ?f" ?a | (type) "\<not> ?f" "\<not> ?a" ?t
    using assms unfolding passes_validation_def by blast
  then show ?thesis
  proof cases
    case fields
    then have "transact env g input d = failure FieldsRequired d []"
      by (rule transact_FieldsRequired)
    then show ?thesis by (intro exI[of _ FieldsRequired]) simp
  next
    case amount
    then have "transact env g input d = failure AmountNotPositive d []"
      by (rule transact_AmountNotPositive)
    then show ?thesis by (intro exI[of _ AmountNotPositive]) simp
  next
    case type
    then have "transact env g input d = failure InvalidType d []"
      by (rule transact_InvalidType)
    then show ?thesis by (intro exI[of _ InvalidType]) simp
  qed
qed


lemma transact_replay:
  "passes_validation input \<Longrightarrow> transactions d (idempotentKey input) = Some r \<Longrightarrow>
   transact env g input d =
     \<lparr>result = Inr \<lparr>success = True, transactionId = txn_transactionId r,
                     newBalance = txn_newBalance r,
                     message = Some ''Transaction already processed (idempotent)''\<rparr>,
      store = d, ops = [GetTransaction (idempotentKey input)]\<rparr>"
  unfolding passes_validation_def transact_def Let_def
  by auto

lemma transact_user_not_found:
  "passes_validation input \<Longrightarrow> transactions d (idempotentKey input) = None \<Longrightarrow>
   users (env AfterIdempotencyCheck d) (userId input) = None \<Longrightarrow>
   transact env g input d =
     failure (UserNotFound (userId input)) (env AfterIdempotencyCheck d)
       [GetTransaction (idempotentKey input), GetUser (userId input)]"
  unfolding passes_validation_def transact_def Let_def
  by auto

lemma transact_finite:
  assumes "passes_validation input" "parseFloat (amount input) = Fin a"
    and "transactions d (idempotentKey input) = None"
    and "users (env AfterIdempotencyCheck d) (userId input) = Some user"
  shows "transact env g input d =
     (if or_default (balance user) 0 + balance_delta (type input) a < 0
      then failure InsufficientBalance (env AfterIdempotencyCheck d)
             [GetTransaction (idempotentKey input), GetUser (userId input)]
      else commit env g (idempotentKey input) (userId input) (type input) a
             (balance_delta (type input) a)
             (or_default (balance user) 0 + balance_delta (type input) a)
             (env AfterIdempotencyCheck d))"
  using assms unfolding passes_validation_def transact_def Let_def balance_delta_def
  by (elim conjE disjE) simp_all

lemma transact_infinite:
  assumes "passes_validation input" "parseFloat (amount input) = PInf"
    and "transactions d (idempotentKey input) = None"
    and "users (env AfterIdempotencyCheck d) (userId input) = Some user"
  shows "transact env g input d =
     failure (if type input = ''debit'' then InsufficientBalance else SdkError)
        (env AfterIdempotencyCheck d)
        [GetTransaction (idempotentKey input), GetUser (userId input)]"
  using assms unfolding passes_validation_def transact_def Let_def
  by (elim conjE disjE) simp_all

text \<open>A call that runs alone and passes the optimistic check commits.\<close>

lemma TransactWriteCommand_alone:
  assumes "transactions d key = None" "users d uid = Some user"
    and "0 \<le> or_default (balance user) 0 + balance_delta ty a" "0 < a"
    and "ty = ''credit'' \<or> ty = ''debit''"
  shows "TransactWriteCommand d key item uid (balance_delta ty a) ts
           (if ty = ''debit'' then Some a else None)
      = Some (d\<lparr>transactions := (transactions d)(key \<mapsto> item),
                users := (users d)(uid \<mapsto>
                  user\<lparr>balance := Some (or_default (balance user) 0 + balance_delta ty a),
                       updatedAt := Some ts\<rparr>)\<rparr>)"
  using assms
  unfolding TransactWriteCommand_def balance_at_least_def Let_def balance_delta_def
    add_balance_def or_default_def item_balance_def
  by (auto split: option.splits if_splits)

lemma transact_fresh_alone:
  assumes "passes_validation input" "parseFloat (amount input) = Fin a"
    and "transactions d (idempotentKey input) = None"
    and "users d (userId input) = Some user"
    and "0 \<le> or_default (balance user) 0 + balance_delta (type input) a"
  shows "transact no_interference g input d =
      \<lparr>result = Inr \<lparr>success = True, transactionId = txnId g,
                      newBalance = or_default (balance user) 0 + balance_delta (type input) a,
                      message = None\<rparr>,
       store = d\<lparr>transactions := (transactions d)(idempotentKey input \<mapsto>
                   \<lparr>txn_transactionId = txnId g, txn_userId = userId input,
                    txn_amount = a, txn_type = type input,
                    txn_newBalance =
                      or_default (balance user) 0 + balance_delta (type input) a,
                    txn_timestamp = now g\<rparr>),
                users := (users d)(userId input \<mapsto>
                   user\<lparr>balance :=
                          Some (or_default (balance user) 0 + balance_delta (type input) a),
                        updatedAt := Some (now g)\<rparr>)\<rparr>,
       ops = [GetTransaction (idempotentKey input), GetUser (userId input),
              TransactWrite (idempotentKey input) (userId input), GetUser (userId input)]\<rparr>"
proof -
  have a: "0 < a" using assms(1,2) by (rule valid_amount)
  have ty: "type input = ''credit'' \<or> type input = ''debit''"
    using assms(1) by (rule valid_type)
  have u: "users (no_interference AfterIdempotencyCheck d) (userId input) = Some user"
    using assms(4) by (simp add: no_interference_def)
  have step: "transact no_interference g input d =
     commit no_interference g (idempotentKey input) (userId input) (type input) a
             (balance_delta (type input) a)
             (or_default (balance user) 0 + balance_delta (type input) a) d"
    using assms(5) transact_finite[where env = no_interference, OF assms(1,2,3) u]
    by (simp add: no_interference_def)
  show ?thesis
    unfolding step commit_def Let_def
    by (simp add: no_interference_def TransactWriteCommand_alone[OF assms(3,4,5) a ty]
          item_balance_def or_default_def)
qed


section \<open>Input validation\<close>

text \<open>
  C7, as amended. If \<^verbatim>\<open>idempotentKey\<close>, \<^verbatim>\<open>userId\<close>, \<^verbatim>\<open>amount\<close> or \<^verbatim>\<open>type\<close> is empty, or
  \<^verbatim>\<open>parseFloat(amount)\<close> is \<open>NaN\<close> or not above zero, or \<^verbatim>\<open>type\<close> is neither
  \<^verbatim>\<open>credit\<close> nor \<^verbatim>\<open>debit\<close>, then \<^verbatim>\<open>transact\<close> fails with an invalid-input error, sends
  nothing to either table and leaves them as they were. (The amount is judged by the
  numeric prefix \<^verbatim>\<open>parseFloat\<close> reads, not by the whole string.)
\<close>

theorem invalid_input_rejected:
  assumes "idempotentKey input = [] \<or> userId input = [] \<or> amount input = []
     \<or> type input = []
     \<or> parseFloat (amount input) = NaN \<or> js_le (parseFloat (amount input)) (Fin 0)
     \<or> (type input \<noteq> ''credit'' \<and> type input \<noteq> ''debit'')"
  shows "\<exists>e. is_InvalidInput e \<and>
             transact env g input d = \<lparr>result = Inl e, store = d, ops = []\<rparr>"
proof -
  have "\<not> passes_validation input"
    using assms unfolding passes_validation_def by blast
  from transact_invalid[OF this, of env g d] show ?thesis
    by (simp add: failure_def)
qed

text \<open>The amount \<^verbatim>\<open>"-10"\<close> of the test "Should reject negative amount".\<close>

theorem invalid_input_rejected_witness:
  "\<exists>e. is_InvalidInput e \<and>
       transact no_interference gen1 (request_of ''invalid-2'' ''alice'' ''-10'' ''credit'')
           alice_100
         = \<lparr>result = Inl e, store = alice_100, ops = []\<rparr>"
  using invalid_input_rejected [of "request_of ''invalid-2'' ''alice'' ''-10'' ''credit''"
      no_interference gen1 alice_100]
  by (simp add: parseFloat_examples js_le_def)

text \<open>
  C7 as stated fails: \<^verbatim>\<open>"10abc"\<close> is not a decimal string, yet \<^verbatim>\<open>parseFloat\<close> reads
  \<open>10\<close> from it and the credit is applied.
\<close>

theorem lenient_amount_accepted:
  "\<not> decimal_string ''10abc'' \<and>
   result (transact no_interference gen1 (request_of ''k1'' ''alice'' ''10abc'' ''credit'')
             alice_100)
     = Inr \<lparr>success = True, transactionId = txnId gen1, newBalance = 110, message = None\<rparr>"
  by (simp add: decimal_string_def DecimalDigit_def eval_defs parseFloat_examples)


section \<open>Replays\<close>

text \<open>
  C3, as amended. When the idempotency key of a call that passes validation has a record
  at the step-1 read, the call returns that record's \<^verbatim>\<open>transactionId\<close> and the
  \<^verbatim>\<open>newBalance\<close> stored in the record, with the replay message; the only store access
  is the read of \<^verbatim>\<open>Transactions\<close>: the account is not read.
\<close>

theorem replay_returns_stored_snapshot:
  assumes "passes_validation input" and "transactions d (idempotentKey input) = Some r"
  shows "transact env g input d =
     \<lparr>result = Inr \<lparr>success = True, transactionId = txn_transactionId r,
                     newBalance = txn_newBalance r,
                     message = Some ''Transaction already processed (idempotent)''\<rparr>,
      store = d, ops = [GetTransaction (idempotentKey input)]\<rparr>"
  using assms by (rule transact_replay)

theorem replay_returns_stored_snapshot_witness:
  "transact no_interference gen3 (request_of ''k1'' ''alice'' ''30'' ''credit'') after_k1_k2 =
     \<lparr>result = Inr \<lparr>success = True, transactionId = txnId gen1,
                     newBalance = 130,
                     message = Some ''Transaction already processed (idempotent)''\<rparr>,
      store = after_k1_k2, ops = [GetTransaction ''k1'']\<rparr>"
proof -
  have rec: "transactions after_k1_k2
               (idempotentKey (request_of ''k1'' ''alice'' ''30'' ''credit'')) = Some k1_record"
    by (simp add: after_k1_k2_eq)
  from replay_returns_stored_snapshot [OF valid_examples(1) rec, of no_interference gen3]
  show ?thesis by (simp add: k1_record_def)
qed

text \<open>
  C3 as stated fails: after a credit of 30 (key \<^verbatim>\<open>k1\<close>) and a credit of 20 (key \<^verbatim>\<open>k2\<close>)
  on a balance of 100, the replay of \<^verbatim>\<open>k1\<close> reports 130 while the balance of the account
  is 150.
\<close>

theorem replay_balance_is_stale:
  "result (transact no_interference gen3 (request_of ''k1'' ''alice'' ''30'' ''credit'')
             after_k1_k2)
     = Inr \<lparr>success = True, transactionId = txnId gen1, newBalance = 130,
            message = Some ''Transaction already processed (idempotent)''\<rparr>
   \<and> result (getCurrentBalance \<lparr>in_userId = ''alice''\<rparr> after_k1_k2)
     = Inr \<lparr>out_userId = ''alice'', out_balance = 150\<rparr>"
  by (simp add: after_k1_k2_eq eval_defs parseFloat_examples k1_record_def)




section \<open>Rejected debits\<close>




section \<open>Account creation and the default balance\<close>



text \<open>
  C10. For an account whose item has no \<^verbatim>\<open>balance\<close> attribute (or has balance zero),
  \<^verbatim>\<open>getCurrentBalance\<close> succeeds with balance 0, and \<^verbatim>\<open>transact\<close> computes from 0 as
  well: a credit of \<open>a\<close> with a new key succeeds with new balance \<open>0 + a\<close>, a debit fails
  with "Insufficient balance".
\<close>

theorem missing_balance_defaults_to_zero:
  assumes "users d (userId input) = Some item"
    and "balance item = None \<or> balance item = Some 0"
    and "passes_validation input"
    and "transactions d (idempotentKey input) = None"
    and "parseFloat (amount input) = Fin a"
  shows "getCurrentBalance \<lparr>in_userId = userId input\<rparr> d =
           \<lparr>result = Inr \<lparr>out_userId = userId input, out_balance = 0\<rparr>,
            store = d, ops = [GetUser (userId input)]\<rparr>
         \<and> result (transact no_interference g input d) =
             (if type input = ''credit''
              then Inr \<lparr>success = True, transactionId = txnId g, newBalance = 0 + a,
                        message = None\<rparr>
              else Inl InsufficientBalance)"
proof -
  have zero: "or_default (balance item) 0 = 0"
    using assms(2) by (auto simp: or_default_def)
  have uid: "userId input \<noteq> []"
    using assms(3) by (simp add: passes_validation_def)
  have a: "0 < a" using assms(3,5) by (rule valid_amount)
  have get: "getCurrentBalance \<lparr>in_userId = userId input\<rparr> d =
           \<lparr>result = Inr \<lparr>out_userId = userId input, out_balance = 0\<rparr>,
            store = d, ops = [GetUser (userId input)]\<rparr>"
    by (simp add: getCurrentBalance_def Let_def uid assms(1) zero)
  have u: "users (no_interference AfterIdempotencyCheck d) (userId input) = Some item"
    using assms(1) by (simp add: no_interference_def)
  have tr: "result (transact no_interference g input d) =
             (if type input = ''credit''
              then Inr \<lparr>success = True, transactionId = txnId g, newBalance = 0 + a,
                        message = None\<rparr>
              else Inl InsufficientBalance)"
  proof (cases "type input = ''credit''")
    case True
    then have ok: "0 \<le> or_default (balance item) 0 + balance_delta (type input) a"
      using a by (simp add: zero balance_delta_def)
    show ?thesis
      by (simp add: transact_fresh_alone[OF assms(3,5,4,1) ok] True zero balance_delta_def)
  next
    case False
    then have "or_default (balance item) 0 + balance_delta (type input) a < 0"
      using a by (simp add: zero balance_delta_def)
    then show ?thesis
      by (simp add: transact_finite[where env = no_interference, OF assms(3,5,4) u] False
            failure_def)
  qed
  from get tr show ?thesis by simp
qed

theorem missing_balance_defaults_to_zero_witness:
  "result (getCurrentBalance \<lparr>in_userId = ''carol''\<rparr> carol_no_balance)
     = Inr \<lparr>out_userId = ''carol'', out_balance = 0\<rparr>
   \<and> result (transact no_interference gen1 (request_of ''k1'' ''carol'' ''10'' ''credit'')
               carol_no_balance)
     = Inr \<lparr>success = True, transactionId = txnId gen1, newBalance = 10, message = None\<rparr>"
proof -
  let ?carol = "\<lparr>balance = None, createdAt = None, updatedAt = None\<rparr>"
  have item: "users carol_no_balance (userId (request_of ''k1'' ''carol'' ''10'' ''credit''))
                = Some ?carol"
    by (simp add: carol_no_balance_def)
  have absent: "balance ?carol = None \<or> balance ?carol = Some 0" by simp
  have fresh: "transactions carol_no_balance
                 (idempotentKey (request_of ''k1'' ''carol'' ''10'' ''credit'')) = None"
    by (simp add: carol_no_balance_def)
  have amt: "parseFloat (amount (request_of ''k1'' ''carol'' ''10'' ''credit'')) = Fin 10"
    by (simp add: parseFloat_examples)
  from missing_balance_defaults_to_zero [OF item absent valid_examples(5) fresh amt, of gen1]
  show ?thesis by simp
qed


section \<open>Idempotent replay\<close>




section \<open>Balances never go negative\<close>

lemma TransactWriteCommand_nonneg:
  assumes "nonneg_balances d"
    and "TransactWriteCommand d key item uid change ts minBalance = Some d'"
    and "case minBalance of None \<Rightarrow> 0 \<le> change | Some m \<Rightarrow> change = - m"
  shows "nonneg_balances d'"
proof -
  have d': "d' = d\<lparr>transactions := (transactions d)(key \<mapsto> item),
                   users := (users d)(uid \<mapsto> add_balance (users d uid) change ts)\<rparr>"
    using assms(2) unfolding TransactWriteCommand_def Let_def by (simp split: if_splits)
  have guard: "\<And>m. minBalance = Some m \<Longrightarrow> balance_at_least (users d uid) m"
    using assms(2) unfolding TransactWriteCommand_def Let_def by (simp split: if_splits)
  have new: "\<And>b. balance (add_balance (users d uid) change ts) = Some b \<Longrightarrow> 0 \<le> b"
  proof -
    fix b assume b: "balance (add_balance (users d uid) change ts) = Some b"
    show "0 \<le> b"
    proof (cases minBalance)
      case None
      then have c: "0 \<le> change" using assms(3) by simp
      show ?thesis
      proof (cases "users d uid")
        case None then show ?thesis using b c by (simp add: add_balance_def)
      next
        case (Some u)
        show ?thesis
        proof (cases "balance u")
          case None then show ?thesis using b c Some by (simp add: add_balance_def)
        next
          case (Some old)
          then have "0 \<le> old" using assms(1) \<open>users d uid = Some u\<close>
            unfolding nonneg_balances_def by blast
          then show ?thesis using b c Some \<open>users d uid = Some u\<close>
            by (auto simp: add_balance_def)
        qed
      qed
    next
      case (Some m)
      then have c: "change = - m" using assms(3) by simp
      from guard[OF Some] obtain u old where u: "users d uid = Some u" "balance u = Some old" "m \<le> old"
        unfolding balance_at_least_def item_balance_def
        by (auto split: option.splits)
      then show ?thesis using b c by (auto simp: add_balance_def)
    qed
  qed
  show ?thesis
    unfolding nonneg_balances_def
  proof (intro allI impI)
    fix v u b assume h: "users d' v = Some u \<and> balance u = Some b"
    show "0 \<le> b"
    proof (cases "v = uid")
      case True
      then have "u = add_balance (users d uid) change ts" using h d' by simp
      then show ?thesis using new h by blast
    next
      case False
      then have "users d v = Some u" using h d' by simp
      then show ?thesis using assms(1) h unfolding nonneg_balances_def by blast
    qed
  qed
qed

lemma commit_nonneg:
  assumes "nonneg_balances d1"
    and env: "\<forall>p d. nonneg_balances d \<longrightarrow> nonneg_balances (env p d)"
    and "0 < a" and "ty = ''credit'' \<or> ty = ''debit''"
  shows "nonneg_balances (store (commit env g key uid ty a (balance_delta ty a) projected d1))"
proof -
  let ?d2 = "env AfterGetUser d1"
  let ?item = "\<lparr>txn_transactionId = txnId g, txn_userId = uid,
                  txn_amount = a, txn_type = ty,
                  txn_newBalance = projected, txn_timestamp = now g\<rparr>"
  let ?min = "if ty = ''debit'' then Some a else None"
  have d2: "nonneg_balances ?d2" using assms(1) env by blast
  have shape: "case ?min of None \<Rightarrow> 0 \<le> balance_delta ty a | Some m \<Rightarrow> balance_delta ty a = - m"
    using assms(3,4) by (auto simp: balance_delta_def)
  show ?thesis
  proof (cases "TransactWriteCommand ?d2 key ?item uid (balance_delta ty a) (now g) ?min")
    case None
    have "nonneg_balances (env AfterCheckAgain (env AfterTransactWrite ?d2))"
      using d2 env by blast
    then show ?thesis
      unfolding commit_def Let_def using None
      by (simp add: failure_def split: option.splits)
  next
    case (Some d3)
    have "nonneg_balances d3"
      using d2 Some shape by (rule TransactWriteCommand_nonneg)
    then have "nonneg_balances (env AfterTransactWrite d3)" using env by blast
    then show ?thesis
      unfolding commit_def Let_def using Some by simp
  qed
qed

lemma transact_nonneg:
  assumes "nonneg_balances d"
    and env: "\<forall>p d. nonneg_balances d \<longrightarrow> nonneg_balances (env p d)"
  shows "nonneg_balances (store (transact env g input d))"
proof (cases "passes_validation input")
  case False
  from transact_invalid[OF this, of env g d] assms(1) show ?thesis
    by (auto simp: failure_def)
next
  case v: True
  show ?thesis
  proof (cases "transactions d (idempotentKey input)")
    case (Some r)
    then show ?thesis using assms(1) by (simp add: transact_replay[OF v Some])
  next
    case none: None
    let ?d1 = "env AfterIdempotencyCheck d"
    have d1: "nonneg_balances ?d1" using assms(1) env by blast
    show ?thesis
    proof (cases "users ?d1 (userId input)")
      case None
      then show ?thesis
        using d1 by (simp add: transact_user_not_found[where env = env, OF v none None] failure_def)
    next
      case (Some user)
      from v show ?thesis
      proof (cases rule: valid_cases)
        case (1 a)
        have "nonneg_balances (store (commit env g (idempotentKey input) (userId input) (type input) a
             (balance_delta (type input) a)
             (or_default (balance user) 0 + balance_delta (type input) a) ?d1))"
          using d1 env 1(2) valid_type[OF v] by (rule commit_nonneg)
        then show ?thesis
          using d1 by (simp add: transact_finite[where env = env, OF v 1(1) none Some] failure_def)
      next
        case 2
        then show ?thesis
          using d1 by (simp add: transact_infinite[where env = env, OF v 2 none Some] failure_def)
      qed
    qed
  qed
qed

lemma exec_nonneg:
  assumes "nonneg_balances d" and "admissible r"
  shows "nonneg_balances (exec r d)"
proof (cases r)
  case (CreateAccount clock uid b)
  then have "0 \<le> b" using assms(2) by simp
  then show ?thesis
    using assms(1) CreateAccount unfolding nonneg_balances_def
    by (auto simp: createUser_def)
next
  case (ApplyTransaction env g input)
  then have "\<forall>p d. nonneg_balances d \<longrightarrow> nonneg_balances (env p d)"
    using assms(2) by simp
  with assms(1) show ?thesis
    unfolding ApplyTransaction exec.simps by (rule transact_nonneg)
next
  case (GetBalance input)
  then show ?thesis
    using assms(1) by (simp add: getCurrentBalance_def Let_def failure_def split: option.splits)
qed

lemma run_nonneg:
  "nonneg_balances d \<Longrightarrow> list_all admissible rs \<Longrightarrow> nonneg_balances (run rs d)"
  by (induction rs arbitrary: d) (auto simp: exec_nonneg)

lemma getCurrentBalance_nonneg:
  assumes "nonneg_balances d" and "result (getCurrentBalance input d) = Inr out"
  shows "0 \<le> out_balance out"
proof -
  from assms(2) obtain item where item: "users d (in_userId input) = Some item"
    and out: "out_balance out = or_default (balance item) 0"
    unfolding getCurrentBalance_def Let_def failure_def
    by (auto split: if_splits option.splits)
  show ?thesis
  proof (cases "balance item")
    case None then show ?thesis using out by (simp add: or_default_def)
  next
    case (Some b)
    then have "0 \<le> b" using assms(1) item unfolding nonneg_balances_def by blast
    then show ?thesis using out Some by (simp add: or_default_def)
  qed
qed

text \<open>
  C2. From tables without a negative balance, after any sequence of \<^verbatim>\<open>createUser\<close> with
  a non-negative initial balance, \<^verbatim>\<open>transact\<close> and \<^verbatim>\<open>getCurrentBalance\<close> (whatever other
  requests do during a transaction, as long as they keep balances non-negative), no
  balance is negative, and \<^verbatim>\<open>getCurrentBalance\<close> returns no negative balance.
\<close>

theorem balances_never_negative:
  assumes "nonneg_balances d" and "list_all admissible rs"
  shows "nonneg_balances (run rs d)
       \<and> (\<forall>input out. result (getCurrentBalance input (run rs d)) = Inr out
              \<longrightarrow> 0 \<le> out_balance out)"
  using run_nonneg[OF assms] getCurrentBalance_nonneg by blast

text \<open>An account created with 100, a debit of 60, and a read of the balance.\<close>

theorem balances_never_negative_witness:
  "nonneg_balances
     (run [CreateAccount clock0 ''alice'' 100,
           ApplyTransaction no_interference gen1 (request_of ''k1'' ''alice'' ''60'' ''debit''),
           GetBalance \<lparr>in_userId = ''alice''\<rparr>] empty_db)
   \<and> result (getCurrentBalance \<lparr>in_userId = ''alice''\<rparr>
       (run [CreateAccount clock0 ''alice'' 100,
           ApplyTransaction no_interference gen1 (request_of ''k1'' ''alice'' ''60'' ''debit''),
           GetBalance \<lparr>in_userId = ''alice''\<rparr>] empty_db))
      = Inr \<lparr>out_userId = ''alice'', out_balance = 40\<rparr>"
proof -
  let ?rs = "[CreateAccount clock0 ''alice'' 100,
           ApplyTransaction no_interference gen1 (request_of ''k1'' ''alice'' ''60'' ''debit''),
           GetBalance \<lparr>in_userId = ''alice''\<rparr>]"
  have start: "nonneg_balances empty_db"
    by (simp add: nonneg_balances_def empty_db_def)
  have adm: "list_all admissible ?rs"
    by (simp add: no_interference_def)
  have get: "result (getCurrentBalance \<lparr>in_userId = ''alice''\<rparr> (run ?rs empty_db))
      = Inr \<lparr>out_userId = ''alice'', out_balance = 40\<rparr>"
    by (simp add: eval_defs parseFloat_examples)
  from balances_never_negative [OF start adm] get
  show ?thesis by blast
qed


section \<open>A rejected commit\<close>

lemma commit_attempts_commit:
  "commit_attempts (ops (commit env g key uid ty a change projected d1)) = 1"
  unfolding commit_def Let_def failure_def commit_attempts_def
  by (simp split: option.splits)

lemma commit_attempts_transact: "commit_attempts (ops (transact env g input d)) \<le> 1"
proof (cases "passes_validation input")
  case False
  from transact_invalid[OF this, of env g d] show ?thesis
    by (auto simp: failure_def commit_attempts_def)
next
  case v: True
  show ?thesis
  proof (cases "transactions d (idempotentKey input)")
    case (Some r)
    then show ?thesis by (simp add: transact_replay[OF v Some] commit_attempts_def)
  next
    case none: None
    show ?thesis
    proof (cases "users (env AfterIdempotencyCheck d) (userId input)")
      case None
      then show ?thesis
        by (simp add: transact_user_not_found[where env = env, OF v none None] failure_def
              commit_attempts_def)
    next
      case (Some user)
      from v show ?thesis
      proof (cases rule: valid_cases)
        case (1 a)
        show ?thesis
          unfolding transact_finite[where env = env, OF v 1(1) none Some]
          by (simp add: commit_attempts_commit) (simp add: failure_def commit_attempts_def)
      next
        case 2
        show ?thesis
          by (simp add: transact_infinite[where env = env, OF v 2 none Some] failure_def
                commit_attempts_def)
      qed
    qed
  qed
qed

lemma commit_rejected:
  assumes "TransactWriteCommand (env AfterGetUser d1) key
             \<lparr>txn_transactionId = txnId g, txn_userId = uid, txn_amount = a, txn_type = ty,
              txn_newBalance = projected, txn_timestamp = now g\<rparr>
             uid change (now g) (if ty = ''debit'' then Some a else None) = None"
    and "transactions (env AfterTransactWrite (env AfterGetUser d1)) key = None"
  shows "commit env g key uid ty a change projected d1 =
     failure
       (if or_default (item_balance (users
             (env AfterCheckAgain (env AfterTransactWrite (env AfterGetUser d1))) uid)) 0
            + change < 0
        then InsufficientBalance else ConcurrentModification)
       (env AfterCheckAgain (env AfterTransactWrite (env AfterGetUser d1)))
       [GetTransaction key, GetUser uid, TransactWrite key uid, GetTransaction key, GetUser uid]"
  unfolding commit_def Let_def using assms by simp

lemma debit_then_credit_simps:
  "debit_then_credit AfterIdempotencyCheck d = d"
  "debit_then_credit AfterTransactWrite d = d"
  by (simp_all add: debit_then_credit_def)

lemma after_debit_50:
  "debit_then_credit AfterGetUser alice_100 =
     \<lparr>users = [''alice'' \<mapsto> \<lparr>balance = Some 50, createdAt = Some (fst clock0),
                              updatedAt = Some (now gen2)\<rparr>],
      transactions = [''k2'' \<mapsto> \<lparr>txn_transactionId = txnId gen2, txn_userId = ''alice'',
                                txn_amount = 50, txn_type = ''debit'',
                                txn_newBalance = 50, txn_timestamp = now gen2\<rparr>]\<rparr>"
  unfolding debit_then_credit_def
  by (simp add: eval_defs parseFloat_examples)

lemma after_credit_100:
  "debit_then_credit AfterCheckAgain (debit_then_credit AfterGetUser alice_100) =
     \<lparr>users = [''alice'' \<mapsto> \<lparr>balance = Some 150, createdAt = Some (fst clock0),
                              updatedAt = Some (now gen3)\<rparr>],
      transactions = [''k2'' \<mapsto> \<lparr>txn_transactionId = txnId gen2, txn_userId = ''alice'',
                                txn_amount = 50, txn_type = ''debit'',
                                txn_newBalance = 50, txn_timestamp = now gen2\<rparr>,
                      ''k3'' \<mapsto> \<lparr>txn_transactionId = txnId gen3, txn_userId = ''alice'',
                                txn_amount = 100, txn_type = ''credit'',
                                txn_newBalance = 150, txn_timestamp = now gen3\<rparr>]\<rparr>"
  unfolding after_debit_50
  by (simp add: debit_then_credit_def eval_defs parseFloat_examples)

text \<open>
  C4, as amended. \<^verbatim>\<open>transact\<close> has no retry of its own. When the atomic write of a debit
  that passed the optimistic check is rejected by the balance guard, the key still has no
  record, and the balance read again would cover the amount, the call fails at once with
  "Transaction failed due to concurrent modification. Please retry.", after one attempted
  write; and no call at all, whatever its outcome, attempts the atomic write more than
  once.
\<close>

theorem commit_rejection_is_not_retried:
  fixes env :: interference and d :: db
  defines "d1 \<equiv> env AfterIdempotencyCheck d"
  defines "d2 \<equiv> env AfterGetUser d1"
  defines "d3 \<equiv> env AfterTransactWrite d2"
  defines "d4 \<equiv> env AfterCheckAgain d3"
  assumes valid: "passes_validation input" and debit: "type input = ''debit''"
    and amt: "parseFloat (amount input) = Fin a"
    and fresh: "transactions d (idempotentKey input) = None"
    and user: "users d1 (userId input) = Some user"
    and optimistic: "0 \<le> or_default (balance user) 0 - a"
    and guard: "\<not> balance_at_least (users d2 (userId input)) a"
    and absent: "transactions d3 (idempotentKey input) = None"
    and favourable: "0 \<le> or_default (item_balance (users d4 (userId input))) 0 - a"
  shows "transact env g input d =
           \<lparr>result = Inl ConcurrentModification, store = d4,
            ops = [GetTransaction (idempotentKey input), GetUser (userId input),
                   TransactWrite (idempotentKey input) (userId input),
                   GetTransaction (idempotentKey input), GetUser (userId input)]\<rparr>
         \<and> commit_attempts (ops (transact env g input d)) = 1
         \<and> (\<forall>env' g' input' d'. commit_attempts (ops (transact env' g' input' d')) \<le> 1)"
proof -
  have delta: "balance_delta (type input) a = - a"
    using debit by (simp add: balance_delta_def)
  have user': "users (env AfterIdempotencyCheck d) (userId input) = Some user"
    using user by (simp add: d1_def)
  have step: "transact env g input d =
      commit env g (idempotentKey input) (userId input) (type input) a (- a)
        (or_default (balance user) 0 - a) d1"
    using optimistic
    by (simp add: transact_finite[where env = env, OF valid amt fresh user'] delta d1_def)
  have rejected: "TransactWriteCommand (env AfterGetUser d1) (idempotentKey input)
             \<lparr>txn_transactionId = txnId g, txn_userId = userId input, txn_amount = a,
              txn_type = type input,
              txn_newBalance = or_default (balance user) 0 - a, txn_timestamp = now g\<rparr>
             (userId input) (- a) (now g) (if type input = ''debit'' then Some a else None) = None"
    using guard debit by (simp add: TransactWriteCommand_def d2_def)
  have absent': "transactions (env AfterTransactWrite (env AfterGetUser d1)) (idempotentKey input) = None"
    using absent by (simp add: d3_def d2_def)
  have main: "transact env g input d =
           \<lparr>result = Inl ConcurrentModification, store = d4,
            ops = [GetTransaction (idempotentKey input), GetUser (userId input),
                   TransactWrite (idempotentKey input) (userId input),
                   GetTransaction (idempotentKey input), GetUser (userId input)]\<rparr>"
    unfolding step commit_rejected[where env = env, OF rejected absent']
    using favourable by (simp add: failure_def d4_def d3_def d2_def)
  then have "commit_attempts (ops (transact env g input d)) = 1"
    by (simp add: commit_attempts_def)
  with main commit_attempts_transact show ?thesis by blast
qed

text \<open>A debit of 60 on a balance of 100; a debit of 50 lands before its write, a credit of
  100 before its last read.\<close>

theorem commit_rejection_is_not_retried_witness:
  "transact debit_then_credit gen1 (request_of ''k1'' ''alice'' ''60'' ''debit'') alice_100
     = \<lparr>result = Inl ConcurrentModification,
        store = debit_then_credit AfterCheckAgain (debit_then_credit AfterGetUser alice_100),
        ops = [GetTransaction ''k1'', GetUser ''alice'', TransactWrite ''k1'' ''alice'',
               GetTransaction ''k1'', GetUser ''alice'']\<rparr>"
proof -
  let ?alice = "\<lparr>balance = Some 100, createdAt = Some (fst clock0), updatedAt = Some (snd clock0)\<rparr>"
  let ?input = "request_of ''k1'' ''alice'' ''60'' ''debit''"
  have debit: "type ?input = ''debit''" by simp
  have amt: "parseFloat (amount ?input) = Fin 60"
    by (simp add: parseFloat_examples)
  have fresh: "transactions alice_100 (idempotentKey ?input) = None"
    by (simp add: alice_100_def createUser_def empty_db_def)
  have user: "users (debit_then_credit AfterIdempotencyCheck alice_100) (userId ?input) = Some ?alice"
    by (simp add: debit_then_credit_simps alice_100_def createUser_def empty_db_def)
  have optimistic: "0 \<le> or_default (balance ?alice) 0 - 60"
    by (simp add: or_default_def)
  have guard: "\<not> balance_at_least
      (users (debit_then_credit AfterGetUser (debit_then_credit AfterIdempotencyCheck alice_100))
         (userId ?input)) 60"
    unfolding debit_then_credit_simps after_debit_50
    by (simp add: balance_at_least_def item_balance_def)
  have absent: "transactions (debit_then_credit AfterTransactWrite
      (debit_then_credit AfterGetUser (debit_then_credit AfterIdempotencyCheck alice_100)))
         (idempotentKey ?input) = None"
    unfolding debit_then_credit_simps after_debit_50 by simp
  have favourable: "0 \<le> or_default (item_balance (users (debit_then_credit AfterCheckAgain
      (debit_then_credit AfterTransactWrite
      (debit_then_credit AfterGetUser (debit_then_credit AfterIdempotencyCheck alice_100))))
         (userId ?input))) 0 - 60"
    unfolding debit_then_credit_simps after_credit_100
    by (simp add: item_balance_def or_default_def)
  from commit_rejection_is_not_retried [where env = debit_then_credit,
      OF valid_examples(6) debit amt fresh user optimistic guard absent favourable, of gen1]
  show ?thesis by (simp add: debit_then_credit_simps)
qed

text \<open>
  C4 as stated fails: in that run the call ends with the concurrent-modification error
  after a single attempted write, where one retry of the whole operation would have
  attempted two.
\<close>

theorem rejected_commit_fails_without_retry:
  "result (transact debit_then_credit gen1 (request_of ''k1'' ''alice'' ''60'' ''debit'') alice_100)
     = Inl ConcurrentModification
   \<and> ops (transact debit_then_credit gen1 (request_of ''k1'' ''alice'' ''60'' ''debit'') alice_100)
     = [GetTransaction ''k1'', GetUser ''alice'', TransactWrite ''k1'' ''alice'',
        GetTransaction ''k1'', GetUser ''alice'']
   \<and> commit_attempts
       (ops (transact debit_then_credit gen1 (request_of ''k1'' ''alice'' ''60'' ''debit'') alice_100))
     = 1"
proof -
  let ?alice = "\<lparr>balance = Some 100, createdAt = Some (fst clock0), updatedAt = Some (snd clock0)\<rparr>"
  have fresh: "transactions alice_100 (idempotentKey (request_of ''k1'' ''alice'' ''60'' ''debit'')) = None"
    by (simp add: alice_100_def createUser_def empty_db_def)
  have user: "users (debit_then_credit AfterIdempotencyCheck alice_100)
                 (userId (request_of ''k1'' ''alice'' ''60'' ''debit'')) = Some ?alice"
    by (simp add: debit_then_credit_simps alice_100_def createUser_def empty_db_def)
  have amt: "parseFloat (amount (request_of ''k1'' ''alice'' ''60'' ''debit'')) = Fin 60"
    by (simp add: parseFloat_examples)
  have step: "transact debit_then_credit gen1 (request_of ''k1'' ''alice'' ''60'' ''debit'') alice_100 =
      commit debit_then_credit gen1 ''k1'' ''alice'' ''debit'' 60 (- 60) 40 alice_100"
    by (simp add: transact_finite[where env = debit_then_credit, OF valid_examples(6) amt fresh user]
          balance_delta_def or_default_def debit_then_credit_simps)
  have rejected: "TransactWriteCommand (debit_then_credit AfterGetUser alice_100) ''k1''
             \<lparr>txn_transactionId = txnId gen1, txn_userId = ''alice'', txn_amount = 60,
              txn_type = ''debit'', txn_newBalance = 40, txn_timestamp = now gen1\<rparr>
             ''alice'' (- 60) (now gen1) (if ''debit'' = ''debit'' then Some 60 else None) = None"
    unfolding after_debit_50
    by (simp add: TransactWriteCommand_def balance_at_least_def item_balance_def)
  have absent: "transactions (debit_then_credit AfterTransactWrite (debit_then_credit AfterGetUser alice_100)) ''k1'' = None"
    unfolding debit_then_credit_simps after_debit_50 by simp
  have "transact debit_then_credit gen1 (request_of ''k1'' ''alice'' ''60'' ''debit'') alice_100 =
     failure ConcurrentModification
       (debit_then_credit AfterCheckAgain (debit_then_credit AfterGetUser alice_100))
       [GetTransaction ''k1'', GetUser ''alice'', TransactWrite ''k1'' ''alice'',
        GetTransaction ''k1'', GetUser ''alice'']"
    unfolding step commit_rejected[where env = debit_then_credit, OF rejected absent]
    unfolding debit_then_credit_simps after_credit_100
    by (simp add: item_balance_def or_default_def)
  then show ?thesis by (simp add: failure_def commit_attempts_def)
qed


section \<open>The balance returned by a fresh success\<close>

text \<open>What a committed call returns: the balance read after the write when it is there
  and not zero, the projected balance otherwise.\<close>

lemma commit_committed:
  assumes "TransactWriteCommand (env AfterGetUser d1) key
             \<lparr>txn_transactionId = txnId g, txn_userId = uid, txn_amount = a, txn_type = ty,
              txn_newBalance = projected, txn_timestamp = now g\<rparr>
             uid change (now g) (if ty = ''debit'' then Some a else None) = Some d3"
  shows "commit env g key uid ty a change projected d1 =
     \<lparr>result = Inr \<lparr>success = True, transactionId = txnId g,
                     newBalance =
                       or_default (item_balance (users (env AfterTransactWrite d3) uid)) projected,
                     message = None\<rparr>,
      store = env AfterTransactWrite d3,
      ops = [GetTransaction key, GetUser uid, TransactWrite key uid, GetUser uid]\<rparr>"
  unfolding commit_def Let_def using assms by simp

lemma after_commit_and_debit:
  "debit_after_commit AfterTransactWrite
     \<lparr>users = [''alice'' \<mapsto> \<lparr>balance = Some 110, createdAt = Some (fst clock0),
                              updatedAt = Some (now gen1)\<rparr>],
      transactions = [''k1'' \<mapsto> \<lparr>txn_transactionId = txnId gen1, txn_userId = ''alice'',
                                txn_amount = 10, txn_type = ''credit'',
                                txn_newBalance = 110, txn_timestamp = now gen1\<rparr>]\<rparr>
   = \<lparr>users = [''alice'' \<mapsto> \<lparr>balance = Some 0, createdAt = Some (fst clock0),
                              updatedAt = Some (now gen2)\<rparr>],
      transactions = [''k1'' \<mapsto> \<lparr>txn_transactionId = txnId gen1, txn_userId = ''alice'',
                                txn_amount = 10, txn_type = ''credit'',
                                txn_newBalance = 110, txn_timestamp = now gen1\<rparr>,
                      ''k2'' \<mapsto> \<lparr>txn_transactionId = txnId gen2, txn_userId = ''alice'',
                                txn_amount = 110, txn_type = ''debit'',
                                txn_newBalance = 0, txn_timestamp = now gen2\<rparr>]\<rparr>"
  by (simp add: debit_after_commit_def eval_defs parseFloat_examples)

text \<open>
  C6 says that the \<^verbatim>\<open>newBalance\<close> of a fresh success is the balance of the account read
  again after the commit. Here a credit of 10 on a balance of 100 commits, a debit of 110
  by another request lands before the call reads the balance again, and the call reads
  0: it returns the projected balance 110 in its place (\<^verbatim>\<open>0 || calculatedNewBalance\<close>),
  while the balance of the account is 0.
\<close>

theorem zero_balance_reread_is_replaced:
  "result (transact debit_after_commit gen1 (request_of ''k1'' ''alice'' ''10'' ''credit'') alice_100)
     = Inr \<lparr>success = True, transactionId = txnId gen1, newBalance = 110, message = None\<rparr>
   \<and> result (getCurrentBalance \<lparr>in_userId = ''alice''\<rparr>
        (store (transact debit_after_commit gen1 (request_of ''k1'' ''alice'' ''10'' ''credit'') alice_100)))
     = Inr \<lparr>out_userId = ''alice'', out_balance = 0\<rparr>"
proof -
  have "transact debit_after_commit gen1 (request_of ''k1'' ''alice'' ''10'' ''credit'') alice_100
     = \<lparr>result = Inr \<lparr>success = True, transactionId = txnId gen1, newBalance = 110, message = None\<rparr>,
        store = \<lparr>users = [''alice'' \<mapsto> \<lparr>balance = Some 0, createdAt = Some (fst clock0),
                              updatedAt = Some (now gen2)\<rparr>],
      transactions = [''k1'' \<mapsto> \<lparr>txn_transactionId = txnId gen1, txn_userId = ''alice'',
                                txn_amount = 10, txn_type = ''credit'',
                                txn_newBalance = 110, txn_timestamp = now gen1\<rparr>,
                      ''k2'' \<mapsto> \<lparr>txn_transactionId = txnId gen2, txn_userId = ''alice'',
                                txn_amount = 110, txn_type = ''debit'',
                                txn_newBalance = 0, txn_timestamp = now gen2\<rparr>]\<rparr>,
        ops = [GetTransaction ''k1'', GetUser ''alice'', TransactWrite ''k1'' ''alice'', GetUser ''alice'']\<rparr>"
    by (simp add: debit_after_commit_def eval_defs parseFloat_examples)
  then show ?thesis
    by (simp add: getCurrentBalance_def Let_def or_default_def)
qed

end
